theory Spec2Isabelle
  imports Main "HOL-Library.FSet" "HOL-Library.Char_ord" "HOL-Library.List_Lexorder"
    "HOL-Library.AList" "HOL-Library.Sublist"
begin

section \<open>Strings\<close>

text \<open>
  Python strings are modelled as \<open>string\<close> (a list of characters), compared
  lexicographically by character code as Python compares \<open>str\<close> values.
  \<open>join_str sep xs\<close> is \<open>sep.join(xs)\<close>.
\<close>

fun join_str :: "string \<Rightarrow> string list \<Rightarrow> string" where
  "join_str sep [] = []"
| "join_str sep [x] = x"
| "join_str sep (x # y # ys) = x @ sep @ join_str sep (y # ys)"

text \<open>
  \<open>str.isspace\<close> on the characters below 256: the ASCII white space 9..13, the
  separators 28..31, the blank, NEL (0x85) and the no-break space (0xA0).
\<close>

definition isspace :: "char \<Rightarrow> bool" where
  "isspace c = (of_char c \<in> {9, 10, 11, 12, 13, 28, 29, 30, 31, 32, 133, 160 :: nat})"

definition lstrip :: "string \<Rightarrow> string" where
  "lstrip s = dropWhile isspace s"

definition rstrip :: "string \<Rightarrow> string" where
  "rstrip s = rev (dropWhile isspace (rev s))"

text \<open>\<open>s.strip()\<close> with no argument: white space removed at both ends.\<close>

definition strip :: "string \<Rightarrow> string" where
  "strip s = lstrip (rstrip s)"

section \<open>The state of the usage driver\<close>

text \<open>
  An instance of \<open>ReplayPythonUsage\<close>. The fields are the attributes the class
  sets in \<open>__init__\<close> and \<open>_reset_state\<close>. An import record of the global set is
  the pair (module, symbol); \<open>init_data_refs\<close> is a dictionary whose values the
  class never inspects, kept as an association list over any value type.
\<close>

type_synonym import_record = "string \<times> string"

record 'r driver =
  enable_assertions :: bool
  action_collection_size :: int
  local_imports :: "string fset"
  global_imports :: "import_record fset"
  header :: "string list"
  recorder :: "string list"
  footer :: "string list"
  init_data_refs :: "(string \<times> 'r) list"

text \<open>\<open>_reset_state(reset_global_imports)\<close>.\<close>

definition reset_state :: "bool \<Rightarrow> 'r driver \<Rightarrow> 'r driver" where
  "reset_state reset_global_imports s =
     (let s1 = s\<lparr>local_imports := {||}, header := [], recorder := [], footer := [],
                  init_data_refs := []\<rparr>
      in if reset_global_imports then s1\<lparr>global_imports := {||}\<rparr> else s1)"

text \<open>
  \<open>__init__(enable_assertions, action_collection_size)\<close>: the two settings are
  stored and the state is reset, the global imports included. The default of
  \<open>action_collection_size\<close> is 2.
\<close>

definition default_action_collection_size :: int where
  "default_action_collection_size = 2"

definition init_driver :: "bool \<Rightarrow> int \<Rightarrow> 'r driver" where
  "init_driver ea acs =
     reset_state True
       \<lparr>enable_assertions = ea, action_collection_size = acs, local_imports = {||},
        global_imports = {||}, header = [], recorder = [], footer = [],
        init_data_refs = []\<rparr>"

text \<open>
  \<open>render(flush)\<close>. \<open>sorted(self.local_imports)\<close> is the sorted list of the
  set's elements. The method assigns \<open>self.header\<close> and \<open>self.footer\<close>, so the
  state it leaves is returned beside the rendered text.
\<close>

definition render :: "bool \<Rightarrow> 'r driver \<Rightarrow> string \<times> 'r driver" where
  "render flush s =
     (let sorted_imps = sorted_list_of_fset (local_imports s);
          s1 = (if header s \<noteq> [] then s\<lparr>header := header s @ ['''']\<rparr> else s);
          s2 = (if footer s1 \<noteq> [] then s1\<lparr>footer := [''''] @ footer s1\<rparr> else s1);
          sorted_imps = (if sorted_imps \<noteq> [] then sorted_imps @ [''''] else sorted_imps);
          rendered = join_str ''\<newline>'' (header s2 @ sorted_imps @ recorder s2 @ footer s2)
      in (rendered, if flush then reset_state False s2 else s2))"

section \<open>Actions, inputs and recorded outputs\<close>

text \<open>
  The live signature of an action: the names of its inputs and of its parameters
  (the keys of two ordered mappings) and its declared output names, in order.
  \<open>signature a\<close> stands for \<open>action.get_action().signature\<close>.
\<close>

record signature =
  inputs :: "string list"
  parameters :: "string list"
  outputs :: "string list"

record action =
  plugin_id :: string
  action_id :: string
  signature :: signature

text \<open>
  Modelled from the spec: the OutputSet (\<open>UsageOutputs\<close>, declared outside this
  file) is an ordered collection of recorded outputs, each an output name with its
  usage variable; a variable is represented by the interface name that
  \<open>to_interface_name()\<close> returns. \<open>len(variables)\<close> is the number of entries,
  \<open>getattr(variables, output)\<close> finds the first entry of that name and raises
  \<open>AttributeError\<close> when there is none, and \<open>variables._asdict()\<close> builds a
  dictionary from the entries in order: a name met again keeps its place and takes
  the later variable.
\<close>

type_synonym usage_outputs = "(string \<times> string) list"

fun dict_of :: "('k \<times> 'v) list \<Rightarrow> ('k \<times> 'v) list \<Rightarrow> ('k \<times> 'v) list" where
  "dict_of d [] = d"
| "dict_of d ((k, v) # kvs) = dict_of (AList.update k v d) kvs"

definition asdict :: "usage_outputs \<Rightarrow> (string \<times> string) list" where
  "asdict variables = dict_of [] variables"

definition getattr :: "usage_outputs \<Rightarrow> string \<Rightarrow> string option" where
  "getattr variables output = map_of variables output"

subsection \<open>\<open>_template_outputs\<close>\<close>

text \<open>
  The loop over the declared outputs: the interface name of the recorded variable,
  or \<open>'_'\<close> where \<open>getattr\<close> raises \<open>AttributeError\<close>.
\<close>

fun outputs_loop :: "usage_outputs \<Rightarrow> string list \<Rightarrow> string list \<Rightarrow> string list" where
  "outputs_loop variables output_vars [] = output_vars"
| "outputs_loop variables output_vars (output # rest) =
     (case getattr variables output of
        Some variable \<Rightarrow> outputs_loop variables (output_vars @ [variable]) rest
      | None \<Rightarrow> outputs_loop variables (output_vars @ [''_'']) rest)"

text \<open>The list \<open>output_vars\<close> as it stands when it is joined.\<close>

definition template_outputs_seq :: "action \<Rightarrow> usage_outputs \<Rightarrow> string list" where
  "template_outputs_seq a variables =
     (let output_vars = outputs_loop variables [] (outputs (signature a))
      in if length output_vars = 1 then output_vars @ [''''] else output_vars)"

definition template_outputs :: "action \<Rightarrow> usage_outputs \<Rightarrow> string" where
  "template_outputs a variables = strip (join_str '', '' (template_outputs_seq a variables))"

subsection \<open>\<open>_template_action\<close>\<close>

text \<open>The warning that follows \<open>INDENT\<close> when a name is not in the live signature.\<close>

definition fixme_text :: string where
  "fixme_text =
     ''# FIXME: The following parameter name was not found in '' @
     ''your current\<newline>    # QIIME 2 environment. This may occur '' @
     ''when the plugin version you have\<newline>    # installed does '' @
     ''not match the version used in the original analysis.\<newline> '' @
     '' # Please see the docs and correct the parameter name '' @
     ''before running.\<newline>''"

definition save_comment :: string where
  "save_comment =
     ''# SAVE: comment out the following with '' @ [CHR 0x27] @ ''# '' @ [CHR 0x27] @
     '' to skip saving Results to disk''"

text \<open>
  The three loops of \<open>_template_action\<close>, each appending to \<open>lines\<close>. \<open>INDENT\<close>
  and \<open>_template_input\<close> belong to the parent class and are parameters here.
\<close>

fun inputs_loop ::
  "string \<Rightarrow> (string \<Rightarrow> 'v \<Rightarrow> string) \<Rightarrow> string list \<Rightarrow> string list \<Rightarrow>
   (string \<times> 'v) list \<Rightarrow> string list" where
  "inputs_loop INDENT template_input all_inputs lines [] = lines"
| "inputs_loop INDENT template_input all_inputs lines ((k, v) # rest) =
     (let line = '''';
          line = (if k \<notin> set all_inputs then INDENT @ fixme_text else line);
          line = line @ template_input k v
      in inputs_loop INDENT template_input all_inputs (lines @ [line]) rest)"

fun extract_loop :: "string list \<Rightarrow> (string \<times> string) list \<Rightarrow> string list" where
  "extract_loop lines [] = lines"
| "extract_loop lines ((k, v) # rest) =
     (let interface_name = v
      in extract_loop (lines @ [interface_name @ '' = action_results.'' @ k]) rest)"

fun save_loop :: "string list \<Rightarrow> (string \<times> string) list \<Rightarrow> string list" where
  "save_loop lines [] = lines"
| "save_loop lines ((k, v) # rest) =
     (let interface_name = v
      in save_loop
           (lines @ [interface_name @ ''.save('' @ [CHR 0x27] @ interface_name @
                     [CHR 0x27] @ '')''])
           rest)"

text \<open>The list \<open>lines\<close> that \<open>_template_action\<close> hands to \<open>_add\<close>.\<close>

definition template_action_lines ::
  "string \<Rightarrow> (string \<Rightarrow> 'v \<Rightarrow> string) \<Rightarrow> int \<Rightarrow> action \<Rightarrow> (string \<times> 'v) list \<Rightarrow>
   usage_outputs \<Rightarrow> string list" where
  "template_action_lines INDENT template_input acs a input_opts variables =
     (let action_f = signature a;
          output_vars =
            (if int (length variables) > acs \<or> length (outputs action_f) > 5
             then ''action_results''
             else template_outputs a variables);
          lines = [output_vars @ '' = '' @ plugin_id a @ ''_actions.'' @ action_id a @ ''(''];
          all_inputs = inputs action_f @ parameters action_f;
          lines = inputs_loop INDENT template_input all_inputs lines input_opts;
          lines = lines @ ['')''];
          lines =
            (if int (length variables) > acs \<or> length (outputs (signature a)) > 5
             then extract_loop lines (asdict variables)
             else lines);
          lines = lines @ [save_comment];
          lines = save_loop lines (asdict variables);
          lines = lines @ ['''']
      in lines)"

text \<open>
  Modelled from the spec: \<open>_add\<close> of the parent class is not in this file; the
  produced lines are appended to the body buffer (the recorder).
\<close>

definition add_lines :: "string list \<Rightarrow> 'r driver \<Rightarrow> 'r driver" where
  "add_lines lines s = s\<lparr>recorder := recorder s @ lines\<rparr>"

definition template_action ::
  "string \<Rightarrow> (string \<Rightarrow> 'v \<Rightarrow> string) \<Rightarrow> action \<Rightarrow> (string \<times> 'v) list \<Rightarrow>
   usage_outputs \<Rightarrow> 'r driver \<Rightarrow> 'r driver" where
  "template_action INDENT template_input a input_opts variables s =
     add_lines
       (template_action_lines INDENT template_input (action_collection_size s) a
          input_opts variables)
       s"

subsection \<open>The rendered lines in closed form\<close>

text \<open>
  The shapes the claims speak of: the name bound to one declared output, the text
  after the bound names on the opening line, the entry of one input, the
  extraction line and the save statement of one recorded output.
\<close>

definition bind_output :: "usage_outputs \<Rightarrow> string \<Rightarrow> string" where
  "bind_output variables output =
     (case map_of variables output of Some name \<Rightarrow> name | None \<Rightarrow> ''_'')"

definition call_open :: "action \<Rightarrow> string" where
  "call_open a = '' = '' @ plugin_id a @ ''_actions.'' @ action_id a @ ''(''"

definition arg_line ::
  "string \<Rightarrow> (string \<Rightarrow> 'v \<Rightarrow> string) \<Rightarrow> string list \<Rightarrow> string \<times> 'v \<Rightarrow> string" where
  "arg_line INDENT template_input all_inputs kv =
     (if fst kv \<in> set all_inputs then template_input (fst kv) (snd kv)
      else INDENT @ fixme_text @ template_input (fst kv) (snd kv))"

definition extraction_line :: "string \<times> string \<Rightarrow> string" where
  "extraction_line kv = snd kv @ '' = action_results.'' @ fst kv"

definition save_line :: "string \<times> string \<Rightarrow> string" where
  "save_line kv = snd kv @ ''.save('' @ [CHR 0x27] @ snd kv @ [CHR 0x27] @ '')''"

definition save_block :: "usage_outputs \<Rightarrow> string list" where
  "save_block variables = save_comment # map save_line (asdict variables) @ ['''']"

text \<open>
  The choice between the two styles, and what depends on it: the handle on the
  opening line and the extraction lines.
\<close>

definition uses_collection :: "int \<Rightarrow> action \<Rightarrow> usage_outputs \<Rightarrow> bool" where
  "uses_collection acs a variables \<longleftrightarrow>
     acs < int (length variables) \<or> 5 < length (outputs (signature a))"

definition output_handle :: "int \<Rightarrow> action \<Rightarrow> usage_outputs \<Rightarrow> string" where
  "output_handle acs a variables =
     (if uses_collection acs a variables then ''action_results''
      else template_outputs a variables)"

definition extraction_block :: "int \<Rightarrow> action \<Rightarrow> usage_outputs \<Rightarrow> string list" where
  "extraction_block acs a variables =
     (if uses_collection acs a variables then map extraction_line (asdict variables) else [])"

section \<open>The footer\<close>

text \<open>
  The provenance graph is read through \<open>dag._parsed_artifact_uuids\<close> only, a set
  of identifiers.
\<close>

record prov_dag =
  parsed_artifact_uuids :: "string fset"

text \<open>
  The loop \<open>for idx in range(0, u_len, 2)\<close> of \<open>build_footer\<close>, appending to
  \<open>pairs\<close>. Both index reads are in range: \<open>idx < u_len\<close>, and
  \<open>idx + 1 < u_len\<close> when \<open>idx\<close> is not the last index.
\<close>

function footer_loop :: "string list \<Rightarrow> nat \<Rightarrow> string list \<Rightarrow> string list" where
  "footer_loop uuids idx pairs =
     (let u_len = length uuids
      in if idx < u_len
         then (if idx = u_len - 1
               then footer_loop uuids (idx + 2) (pairs @ [''# '' @ uuids ! idx])
               else footer_loop uuids (idx + 2)
                      (pairs @ [''# '' @ uuids ! idx @ '' '' @ [CHR 0x09] @ '' '' @
                                uuids ! (idx + 1)]))
         else pairs)"
  by pat_completeness auto
termination
  by (relation "measure (\<lambda>(uuids, idx, pairs). length uuids - idx)") auto

declare footer_loop.simps [simp del]

definition footer_note :: string where
  "footer_note = ''# The following QIIME 2 Results were parsed to produce this script:''"

definition build_footer :: "prov_dag \<Rightarrow> string \<Rightarrow> string list" where
  "build_footer dag boundary =
     (let footer = [];
          pairs = [];
          uuids = sorted_list_of_fset (parsed_artifact_uuids dag);
          pairs = footer_loop uuids 0 pairs;
          footer = footer @ [boundary];
          footer = footer @ [footer_note];
          footer = footer @ pairs;
          footer = footer @ [boundary];
          footer = footer @ ['''']
      in footer)"

text \<open>
  The identifier lines in closed form: the identifiers taken two at a time, a last
  one alone, and the line that carries one group.
\<close>

fun pair_up :: "'a list \<Rightarrow> 'a list list" where
  "pair_up (x # y # rest) = [x, y] # pair_up rest"
| "pair_up [x] = [[x]]"
| "pair_up [] = []"

definition footer_line :: "string list \<Rightarrow> string" where
  "footer_line ids = ''# '' @ join_str ('' '' @ [CHR 0x09] @ '' '') ids"

section \<open>Imports\<close>

text \<open>
  Modelled from the spec: the recording operation (\<open>_update_imports\<close> of the
  parent class) is not in this file. It adds an import obligation for a module
  path and a symbol name: the statement \<open>from module import symbol\<close> joins the
  local imports and the record joins the global imports; both are sets, so
  recording again changes nothing.
\<close>

definition import_statement :: "import_record \<Rightarrow> string" where
  "import_statement r = ''from '' @ fst r @ '' import '' @ snd r"

definition update_imports :: "import_record \<Rightarrow> 'r driver \<Rightarrow> 'r driver" where
  "update_imports r s =
     s\<lparr>local_imports := finsert (import_statement r) (local_imports s),
       global_imports := finsert r (global_imports s)\<rparr>"

fun record_imports :: "import_record list \<Rightarrow> 'r driver \<Rightarrow> 'r driver" where
  "record_imports [] s = s"
| "record_imports (r # rs) s = record_imports rs (update_imports r s)"

text \<open>The import lines of the rendered text, with their blank separator.\<close>

definition import_block :: "string list \<Rightarrow> string list" where
  "import_block sorted_imps = (if sorted_imps \<noteq> [] then sorted_imps @ [''''] else sorted_imps)"

section \<open>Comments\<close>

text \<open>
  \<open>comment\<close> calls \<open>textwrap.wrap(line, 79, break_long_words=False,
  initial_indent='# ', subsequent_indent='# ')\<close> of the Python library; the
  other options of the wrapper keep their defaults (tabs expanded to columns of 8,
  white space replaced by blanks, hyphenated words breakable, white space dropped
  at line ends, no limit on the number of lines). The library functions are
  modelled for these options, on texts of characters below 256.
\<close>

subsection \<open>Character classes\<close>

text \<open>\<open>textwrap._whitespace\<close>: tab, line feed, VT, FF, CR and the blank.\<close>

definition whitespace :: "char \<Rightarrow> bool" where
  "whitespace c = (c \<in> set [CHR 0x09, CHR 0x0A, CHR 0x0B, CHR 0x0C, CHR 0x0D, CHR 0x20])"

text \<open>The classes \<open>\w\<close> and \<open>\d\<close> of \<open>re\<close> on the characters below 256.\<close>

definition re_word :: "char \<Rightarrow> bool" where
  "re_word c =
     (let n = (of_char c :: nat)
      in (48 \<le> n \<and> n \<le> 57) \<or> (65 \<le> n \<and> n \<le> 90) \<or> n = 95 \<or> (97 \<le> n \<and> n \<le> 122)
         \<or> n = 170 \<or> n = 178 \<or> n = 179 \<or> n = 181 \<or> n = 185 \<or> n = 186
         \<or> (188 \<le> n \<and> n \<le> 190) \<or> (192 \<le> n \<and> n \<le> 214) \<or> (216 \<le> n \<and> n \<le> 246)
         \<or> 248 \<le> n)"

definition re_digit :: "char \<Rightarrow> bool" where
  "re_digit c = (let n = (of_char c :: nat) in 48 \<le> n \<and> n \<le> 57)"

text \<open>\<open>letter = [^\d\W]\<close> and \<open>word_punct = [\w!"'&.,?]\<close>.\<close>

definition letter :: "char \<Rightarrow> bool" where
  "letter c = (re_word c \<and> \<not> re_digit c)"

definition word_punct :: "char \<Rightarrow> bool" where
  "word_punct c =
     (re_word c \<or> c \<in> set [CHR ''!'', CHR 0x22, CHR 0x27, CHR ''&'', CHR ''.'', CHR '','', CHR ''?''])"

abbreviation hyphen :: char where
  "hyphen \<equiv> CHR ''-''"

subsection \<open>\<open>_munge_whitespace\<close>\<close>

text \<open>
  \<open>str.expandtabs(tabsize)\<close>: a tab becomes the blanks up to the next multiple of
  \<open>tabsize\<close>; the column restarts after a line feed or a carriage return.
\<close>

fun expandtabs_from :: "nat \<Rightarrow> nat \<Rightarrow> string \<Rightarrow> string" where
  "expandtabs_from tabsize line_pos [] = []"
| "expandtabs_from tabsize line_pos (ch # rest) =
     (if ch = CHR 0x09
      then (if tabsize > 0
            then (let incr = tabsize - line_pos mod tabsize
                  in replicate incr CHR '' '' @ expandtabs_from tabsize (line_pos + incr) rest)
            else expandtabs_from tabsize line_pos rest)
      else ch # expandtabs_from tabsize
                  (if ch = CHR 0x0A \<or> ch = CHR 0x0D then 0 else line_pos + 1) rest)"

definition expandtabs :: "nat \<Rightarrow> string \<Rightarrow> string" where
  "expandtabs tabsize text = expandtabs_from tabsize 0 text"

definition munge_whitespace :: "string \<Rightarrow> string" where
  "munge_whitespace text =
     (let text = expandtabs 8 text
      in map (\<lambda>c. if whitespace c then CHR '' '' else c) text)"

subsection \<open>\<open>_split\<close>: the chunks of \<open>wordsep_re\<close>\<close>

text \<open>
  The expression is matched at a position of the text; \<open>back\<close> is the text before
  the position, nearest character first (the look-behinds read it), \<open>rest\<close> the
  text from the position on.

  \<open>(?=-{2,}\w)\<close>: two or more hyphens, all there are, then a word character.
\<close>

definition dashes_then_word :: "string \<Rightarrow> bool" where
  "dashes_then_word rest =
     (let n = length (takeWhile (\<lambda>c. c = hyphen) rest)
      in 2 \<le> n \<and> n < length rest \<and> re_word (rest ! n))"

text \<open>
  After a hyphen has been read, \<open>(?<=letter{2}-) | (?<=letter-letter-)\<close>;
  \<open>back\<close> is the text before that hyphen.
\<close>

fun behind_hyphen :: "string \<Rightarrow> bool" where
  "behind_hyphen (c1 # c2 # c3 # back) =
     (letter c2 \<and> letter c1 \<or> letter c3 \<and> c2 = hyphen \<and> letter c1)"
| "behind_hyphen [c1, c2] = (letter c2 \<and> letter c1)"
| "behind_hyphen back = False"

text \<open>\<open>(?= letter -? letter)\<close> on the text after the hyphen.\<close>

fun letters_ahead :: "string \<Rightarrow> bool" where
  "letters_ahead (c1 # c2 # rest) =
     (letter c1 \<and>
      (if c2 = hyphen then (case rest of c3 # _ \<Rightarrow> letter c3 | [] \<Rightarrow> False) else letter c2))"
| "letters_ahead rest = False"

text \<open>
  The third alternative, a word: \<open>[^whitespace]+?\<close> has read at least one
  character and reads on, one character at a time, until one of its three endings
  matches: a hyphen inside a hyphenated word (the hyphen is part of the chunk), the
  end of the word, or an em-dash ahead. The result is the number of characters
  still read from \<open>rest\<close>.
\<close>

fun word_rest :: "string \<Rightarrow> string \<Rightarrow> nat" where
  "word_rest back [] = 0"
| "word_rest back (c # rest) =
     (if c = hyphen \<and> behind_hyphen back \<and> letters_ahead rest then 1
      else if whitespace c then 0
      else if back \<noteq> [] \<and> word_punct (hd back) \<and> dashes_then_word (c # rest) then 0
      else 1 + word_rest (c # back) rest)"

text \<open>
  The length of the match at a position where \<open>rest\<close> is not empty: a run of
  white space; or an em-dash between words; or a word.
\<close>

definition match_length :: "string \<Rightarrow> string \<Rightarrow> nat" where
  "match_length back rest =
     (if whitespace (hd rest) then length (takeWhile whitespace rest)
      else if back \<noteq> [] \<and> word_punct (hd back) \<and> dashes_then_word rest
      then length (takeWhile (\<lambda>c. c = hyphen) rest)
      else 1 + word_rest (hd rest # back) (tl rest))"

text \<open>
  \<open>wordsep_re.split(text)\<close> without its empty strings: some alternative matches
  at every position, so the chunks are the successive matches.
\<close>

function split_from :: "string \<Rightarrow> string \<Rightarrow> string list" where
  "split_from back rest =
     (if rest = [] then []
      else (let n = match_length back rest
            in take n rest # split_from (rev (take n rest) @ back) (drop n rest)))"
  by pat_completeness auto
termination
proof -
  have pos: "0 < match_length bk rest" if "rest \<noteq> []" for bk rest
    using that by (cases rest) (auto simp: match_length_def dashes_then_word_def Let_def)
  show ?thesis
    by (relation "measure (\<lambda>(bk, rest). length rest)") (auto simp: pos)
qed

declare split_from.simps [simp del]

definition split_chunks :: "string \<Rightarrow> string list" where
  "split_chunks text = split_from [] (munge_whitespace text)"

subsection \<open>\<open>_wrap_chunks\<close>\<close>

text \<open>
  The inner loop: chunks are moved to the current line while they fit in
  \<open>width\<close>. The result is the line and the chunks left.
\<close>

fun fill_line :: "int \<Rightarrow> string list \<Rightarrow> int \<Rightarrow> string list \<Rightarrow> string list \<times> string list" where
  "fill_line width cur_line cur_len [] = (cur_line, [])"
| "fill_line width cur_line cur_len (c # chunks) =
     (let l = int (length c)
      in if cur_len + l \<le> width then fill_line width (cur_line @ [c]) (cur_len + l) chunks
         else (cur_line, c # chunks))"

text \<open>
  \<open>_handle_long_word\<close> with \<open>break_long_words\<close> false: the chunk that fits on no
  line is taken whole, and only onto a line that is still empty.
\<close>

definition handle_long_word :: "string list \<Rightarrow> string list \<Rightarrow> string list \<times> string list" where
  "handle_long_word chunks cur_line =
     (if cur_line = [] then (cur_line @ [hd chunks], tl chunks) else (cur_line, chunks))"

text \<open>
  One round of the outer loop, up to the line being stored: the chunks of the
  line, if any, and the chunks left. A white space chunk is dropped at the start
  of every line but the first and at the end of every line.
\<close>

definition wrap_line :: "int \<Rightarrow> string list \<Rightarrow> string list \<Rightarrow> string list \<times> string list" where
  "wrap_line width chunks lines =
     (let chunks = (if strip (hd chunks) = '''' \<and> lines \<noteq> [] then tl chunks else chunks);
          filled = fill_line width [] 0 chunks;
          handled =
            (if snd filled \<noteq> [] \<and> int (length (hd (snd filled))) > width
             then handle_long_word (snd filled) (fst filled)
             else filled);
          cur_line = fst handled;
          cur_line =
            (if cur_line \<noteq> [] \<and> strip (last cur_line) = '''' then butlast cur_line
             else cur_line)
      in (cur_line, snd handled))"

text \<open>
  The outer loop of \<open>_wrap_chunks\<close>. \<open>width\<close> is positive in the call made
  here, so the check that raises \<open>ValueError\<close> passes.
\<close>

function wrap_loop :: "int \<Rightarrow> string \<Rightarrow> string \<Rightarrow> string list \<Rightarrow> string list \<Rightarrow> string list" where
  "wrap_loop w initial_indent subsequent_indent chunks lines =
     (if chunks = [] then lines
      else (let indent = (if lines \<noteq> [] then subsequent_indent else initial_indent);
                width = w - int (length indent);
                round = wrap_line width chunks lines;
                cur_line = fst round;
                lines = (if cur_line \<noteq> [] then lines @ [indent @ concat cur_line] else lines)
            in wrap_loop w initial_indent subsequent_indent (snd round) lines))"
  by pat_completeness auto
termination
proof -
  have rest_length: "length (snd (fill_line width cur_line cur_len chunks)) \<le> length chunks"
    for width cur_line cur_len chunks
    by (induction chunks arbitrary: cur_line cur_len) (auto simp: Let_def le_SucI)
  have progress: "length (snd (wrap_line width chunks lines)) < length chunks"
    if ne: "chunks \<noteq> []" for width chunks lines
  proof -
    obtain c cs where chunks: "chunks = c # cs"
      using ne by (cases chunks) auto
    have rest: "length (snd (wrap_line width chunks lines)) \<le> length cs"
      if "strip c = '''' \<and> lines \<noteq> []"
      using that rest_length [of width "[]" 0 cs]
      by (cases "fill_line width [] 0 cs"; cases cs)
         (auto simp: wrap_line_def chunks Let_def handle_long_word_def)
    have keep: "length (snd (wrap_line width chunks lines)) \<le> length cs"
      if "\<not> (strip c = '''' \<and> lines \<noteq> [])"
    proof (cases "int (length c) \<le> width")
      case True
      then have "length (snd (fill_line width [] 0 (c # cs))) \<le> length cs"
        by (simp add: Let_def rest_length)
      then show ?thesis
        using that
        by (cases "fill_line width [] 0 (c # cs)")
           (auto simp: wrap_line_def chunks Let_def handle_long_word_def
              simp del: fill_line.simps)
    next
      case False
      then have "fill_line width [] 0 (c # cs) = ([], c # cs)"
        by (simp add: Let_def)
      then show ?thesis
        using that False by (auto simp: wrap_line_def chunks Let_def handle_long_word_def)
    qed
    show ?thesis
      using rest keep by (cases "strip c = '''' \<and> lines \<noteq> []") (auto simp: chunks)
  qed
  show ?thesis
    by (relation "measure (\<lambda>(w, i, s, chunks, lines). length chunks)")
       (auto simp: progress)
qed

declare wrap_loop.simps [simp del]

text \<open>\<open>textwrap.wrap(text, width, ...)\<close> with the two indents.\<close>

definition wrap :: "string \<Rightarrow> int \<Rightarrow> string \<Rightarrow> string \<Rightarrow> string list" where
  "wrap text width initial_indent subsequent_indent =
     (let chunks = split_chunks text
      in wrap_loop width initial_indent subsequent_indent chunks [])"

subsection \<open>\<open>comment\<close>\<close>

definition LINE_LEN :: int where
  "LINE_LEN = 79"

text \<open>The list \<open>lines\<close> that \<open>comment\<close> hands to \<open>_add\<close>.\<close>

definition comment_lines :: "string \<Rightarrow> string list" where
  "comment_lines line =
     (let lines = wrap line LINE_LEN ''# '' ''# '';
          lines = lines @ ['''']
      in lines)"

definition comment :: "string \<Rightarrow> 'r driver \<Rightarrow> 'r driver" where
  "comment line s = add_lines (comment_lines line) s"

subsection \<open>Lines and chunks\<close>



section \<open>Rendering and the accumulated state\<close>

lemma sorted_list_of_fset_empty: "sorted_list_of_fset {||} = []"
  by (simp add: sorted_list_of_fset.rep_eq)

lemma sorted_list_of_fset_Nil_iff: "sorted_list_of_fset A = [] \<longleftrightarrow> A = {||}"
  by (metis sorted_list_of_fset_empty sorted_list_of_fset_simps(2))

text \<open>
  C3: \<open>render\<close> without flush is claimed to leave the whole state unchanged. On a
  state whose header holds one line, the call leaves a header of two lines: the
  blank separator is stored back into \<open>self.header\<close>.
\<close>

theorem render_noflush_mutates_header:
  "header (snd (render False
      ((init_driver False 2 :: unit driver)\<lparr>header := [''# h'']\<rparr>))) = [''# h'', '''']
   \<and> snd (render False ((init_driver False 2 :: unit driver)\<lparr>header := [''# h'']\<rparr>))
       \<noteq> (init_driver False 2)\<lparr>header := [''# h'']\<rparr>"
  by (simp add: render_def init_driver_def reset_state_def Let_def)

text \<open>
  C5: \<open>render(flush=True)\<close> empties header, recorder, footer, local imports and
  \<open>init_data_refs\<close> and keeps the global imports; the next \<open>render\<close> then returns
  the empty text; \<open>_reset_state(reset_global_imports=True)\<close> empties the global
  imports as well.
\<close>

theorem render_flush_clears_local_state:
  "header (snd (render True s)) = []
   \<and> recorder (snd (render True s)) = []
   \<and> footer (snd (render True s)) = []
   \<and> local_imports (snd (render True s)) = {||}
   \<and> init_data_refs (snd (render True s)) = []
   \<and> global_imports (snd (render True s)) = global_imports s
   \<and> fst (render flush (snd (render True s))) = ''''
   \<and> global_imports (reset_state True s) = {||}"
  by (simp add: render_def reset_state_def Let_def sorted_list_of_fset_empty)

section \<open>Rendering one action\<close>

lemma outputs_loop_map:
  "outputs_loop variables acc outs = acc @ map (bind_output variables) outs"
  by (induction outs arbitrary: acc) (simp_all add: getattr_def bind_output_def split: option.split)

lemma inputs_loop_map:
  "inputs_loop INDENT tin all_inputs lines opts = lines @ map (arg_line INDENT tin all_inputs) opts"
  by (induction opts arbitrary: lines) (auto simp: arg_line_def)

lemma extract_loop_map: "extract_loop lines kvs = lines @ map extraction_line kvs"
  by (induction kvs arbitrary: lines) (auto simp: extraction_line_def)

lemma save_loop_map: "save_loop lines kvs = lines @ map save_line kvs"
  by (induction kvs arbitrary: lines) (auto simp: save_line_def)

lemma template_outputs_seq_eq:
  "template_outputs_seq a variables =
     map (bind_output variables) (outputs (signature a)) @
     (if length (outputs (signature a)) = 1 then [''''] else [])"
  by (simp add: template_outputs_seq_def outputs_loop_map Let_def)

lemma template_action_lines_eq:
  "template_action_lines INDENT tin acs a input_opts variables =
    (if acs < int (length variables) \<or> 5 < length (outputs (signature a))
     then (''action_results'' @ call_open a) #
          map (arg_line INDENT tin (inputs (signature a) @ parameters (signature a))) input_opts @
          ['')''] @ map extraction_line (asdict variables) @ save_block variables
     else (template_outputs a variables @ call_open a) #
          map (arg_line INDENT tin (inputs (signature a) @ parameters (signature a))) input_opts @
          ['')''] @ save_block variables)"
  by (simp add: template_action_lines_def Let_def inputs_loop_map extract_loop_map
      save_loop_map call_open_def save_block_def)

lemma not_isspace_comma: "\<not> isspace CHR '',''"
  by (simp add: isspace_def)

lemma isspace_blank: "isspace CHR '' ''"
  by (simp add: isspace_def)

lemma strip_name_comma: "strip (n @ '', '') = lstrip n @ '',''"
proof -
  have "rstrip (n @ '', '') = n @ '',''"
    by (simp add: rstrip_def isspace_blank not_isspace_comma)
  moreover have "lstrip (n @ '','') = lstrip n @ '',''"
    unfolding lstrip_def
    by (induction n) (simp_all add: not_isspace_comma)
  ultimately show ?thesis by (simp add: strip_def)
qed

lemma dict_of_keys_distinct:
  "distinct (map fst d) \<Longrightarrow> distinct (map fst (dict_of d kvs))"
  by (induction d kvs rule: dict_of.induct) (simp_all add: distinct_update)

lemma dict_of_keys_set:
  "set (map fst (dict_of d kvs)) = set (map fst d) \<union> set (map fst kvs)"
  by (induction d kvs rule: dict_of.induct) (auto simp: dom_update)

lemma update_fresh: "k \<notin> fst ` set d \<Longrightarrow> AList.update k v d = d @ [(k, v)]"
  by (induction d) auto

lemma dict_of_distinct_id:
  "distinct (map fst (d @ kvs)) \<Longrightarrow> dict_of d kvs = d @ kvs"
  by (induction d kvs rule: dict_of.induct) (auto simp: update_fresh)

text \<open>
  C1: one call of \<open>_template_action\<close> appends to the recorder either the lines of
  the collective style, when the number of recorded variables exceeds
  \<open>action_collection_size\<close> (2 by default) or more than 5 outputs are declared:
  the handle \<open>action_results\<close> on the opening line and one extraction line for
  each recorded output; or else the lines of the individual style: the names of
  \<open>_template_outputs\<close> on the opening line and no extraction line.
\<close>

theorem template_action_output_style:
  "recorder (template_action INDENT tin a input_opts variables s) =
     recorder s @
     (if action_collection_size s < int (length variables)
         \<or> 5 < length (outputs (signature a))
      then (''action_results'' @ call_open a) #
           map (arg_line INDENT tin (inputs (signature a) @ parameters (signature a)))
             input_opts @
           ['')''] @ map extraction_line (asdict variables) @ save_block variables
      else (template_outputs a variables @ call_open a) #
           map (arg_line INDENT tin (inputs (signature a) @ parameters (signature a)))
             input_opts @
           ['')''] @ save_block variables)
   \<and> length (map extraction_line (asdict variables)) = length (asdict variables)
   \<and> action_collection_size
        (init_driver ea default_action_collection_size :: 'r driver) = 2"
  by (simp add: template_action_def add_lines_def template_action_lines_eq
      init_driver_def reset_state_def default_action_collection_size_def)

text \<open>
  C2 as stated: with one declared output the returned string would be the bare
  name. For the declared output \<open>out\<close> recorded as \<open>x\<close> the list is
  \<open>['x', '']\<close> and the returned string is \<open>x,\<close>: \<open>strip()\<close> removes the blank
  of the separator and keeps its comma.
\<close>

theorem template_outputs_single_counterexample:
  "template_outputs_seq
     \<lparr>plugin_id = ''p'', action_id = ''act'',
      signature = \<lparr>inputs = [], parameters = [], outputs = [''out'']\<rparr>\<rparr>
     [(''out'', ''x'')] = [''x'', '''']
   \<and> template_outputs
     \<lparr>plugin_id = ''p'', action_id = ''act'',
      signature = \<lparr>inputs = [], parameters = [], outputs = [''out'']\<rparr>\<rparr>
     [(''out'', ''x'')] = ''x,''
   \<and> template_outputs
     \<lparr>plugin_id = ''p'', action_id = ''act'',
      signature = \<lparr>inputs = [], parameters = [], outputs = [''out'']\<rparr>\<rparr>
     [(''out'', ''x'')] \<noteq> ''x''"
  by (simp add: template_outputs_def template_outputs_seq_eq bind_output_def
      strip_def lstrip_def rstrip_def isspace_def)

text \<open>
  C2, amended: with exactly one declared output the list that is joined has two
  entries, the name bound to the output (its interface name, or \<open>'_'\<close>) and the
  empty string, and the returned string is that name, without leading white
  space, followed by one comma.
\<close>

theorem template_outputs_single:
  assumes "outputs (signature a) = [output]"
  shows "template_outputs_seq a variables = [bind_output variables output, '''']
       \<and> template_outputs a variables = lstrip (bind_output variables output) @ '',''"
  using assms by (simp add: template_outputs_def template_outputs_seq_eq strip_name_comma)

theorem template_outputs_single_witness:
  "outputs (signature
     \<lparr>plugin_id = ''p'', action_id = ''act'',
      signature = \<lparr>inputs = [], parameters = [], outputs = [''out'']\<rparr>\<rparr>) = [''out'']
   \<and> template_outputs_seq
     \<lparr>plugin_id = ''p'', action_id = ''act'',
      signature = \<lparr>inputs = [], parameters = [], outputs = [''out'']\<rparr>\<rparr> [] = [''_'', '''']
   \<and> template_outputs
     \<lparr>plugin_id = ''p'', action_id = ''act'',
      signature = \<lparr>inputs = [], parameters = [], outputs = [''out'']\<rparr>\<rparr> [] = ''_,''"
  using template_outputs_single [of
     "\<lparr>plugin_id = ''p'', action_id = ''act'',
       signature = \<lparr>inputs = [], parameters = [], outputs = [''out'']\<rparr>\<rparr>" "''out''" "[]"]
  by (simp add: bind_output_def lstrip_def isspace_def)

text \<open>
  C9: the list built by \<open>_template_outputs\<close> holds, for the declared outputs in
  their declared order, the interface name recorded for the output, or \<open>'_'\<close>
  when none is recorded; the only other entry it can hold is the empty string
  that follows a single declared output. No input makes the function fail.
\<close>

theorem template_outputs_declared_order:
  "template_outputs_seq a variables =
     map (\<lambda>output. case map_of variables output of Some name \<Rightarrow> name | None \<Rightarrow> ''_'')
       (outputs (signature a)) @
     (if length (outputs (signature a)) = 1 then [''''] else [])
   \<and> take (length (outputs (signature a))) (template_outputs_seq a variables) =
     map (\<lambda>output. case map_of variables output of Some name \<Rightarrow> name | None \<Rightarrow> ''_'')
       (outputs (signature a))
   \<and> template_outputs a variables = strip (join_str '', '' (template_outputs_seq a variables))"
proof -
  have b: "bind_output variables =
    (\<lambda>output. case map_of variables output of Some name \<Rightarrow> name | None \<Rightarrow> ''_'')"
    by (rule ext) (simp add: bind_output_def)
  show ?thesis
    by (simp add: template_outputs_seq_eq template_outputs_def b)
qed

lemma template_action_lines_blocks:
  "template_action_lines INDENT tin acs a input_opts variables =
     (output_handle acs a variables @ call_open a) #
     map (arg_line INDENT tin (inputs (signature a) @ parameters (signature a))) input_opts @
     ['')''] @ extraction_block acs a variables @ save_block variables"
  by (simp add: template_action_lines_eq output_handle_def extraction_block_def
      uses_collection_def)


lemma template_action_recorder:
  "recorder (template_action INDENT tin a input_opts variables s) =
     recorder s @
     template_action_lines INDENT tin (action_collection_size s) a input_opts variables"
  by (simp add: template_action_def add_lines_def)



lemma asdict_keys_distinct: "distinct (map fst (asdict variables))"
  by (simp add: asdict_def dict_of_keys_distinct)

lemma asdict_keys_set: "fst ` set (asdict variables) = fst ` set variables"
  using dict_of_keys_set [of "[]" variables] by (simp add: asdict_def)

text \<open>
  C10: in the collective style \<open>_template_action\<close> appends to the recorder the
  opening line bound to \<open>action_results\<close>, the entries of the inputs and the
  closing line of the call, and after them one extraction line for each entry of
  the recorded outputs, the save comment, one save statement for each entry of
  the recorded outputs, and the blank line; each recorded output name has exactly
  one entry there, and the declared outputs of the live signature do not enter.
\<close>

theorem collective_lines_follow_recorded_outputs:
  assumes "action_collection_size s < int (length variables)
           \<or> 5 < length (outputs (signature a))"
  shows "recorder (template_action INDENT tin a input_opts variables s) =
      recorder s @
      [''action_results'' @ call_open a] @
      map (arg_line INDENT tin (inputs (signature a) @ parameters (signature a))) input_opts @
      ['')''] @
      map extraction_line (asdict variables) @ [save_comment] @
      map save_line (asdict variables) @ ['''']
    \<and> drop (length (recorder s) + length input_opts + 2)
        (recorder (template_action INDENT tin a input_opts variables s)) =
      map extraction_line (asdict variables) @ [save_comment] @
      map save_line (asdict variables) @ ['''']
    \<and> distinct (map fst (asdict variables))
    \<and> fst ` set (asdict variables) = fst ` set variables"
  using assms
  by (simp add: template_action_recorder template_action_lines_blocks output_handle_def
      extraction_block_def uses_collection_def save_block_def asdict_keys_distinct
      asdict_keys_set)

theorem collective_lines_follow_recorded_outputs_witness:
  "((2::int) < int (length [(''a'', ''x''), (''b'', ''y''), (''c'', ''z'')])
     \<or> 5 < length (outputs (signature
         \<lparr>plugin_id = ''p'', action_id = ''act'',
          signature = \<lparr>inputs = [], parameters = [],
            outputs = [''a'', ''b'', ''c'', ''d'']\<rparr>\<rparr>)))
   \<and> recorder
       (template_action ''    '' (\<lambda>k v. ''    '' @ k @ ''='' @ v @ '','')
          \<lparr>plugin_id = ''p'', action_id = ''act'',
           signature = \<lparr>inputs = [], parameters = [],
             outputs = [''a'', ''b'', ''c'', ''d'']\<rparr>\<rparr>
          [] [(''a'', ''x''), (''b'', ''y''), (''c'', ''z'')]
          ((init_driver False 2 :: unit driver)\<lparr>recorder := [''# earlier'']\<rparr>)) =
     [''# earlier'', ''action_results = p_actions.act('', '')'',
      ''x = action_results.a'', ''y = action_results.b'', ''z = action_results.c'',
      save_comment,
      ''x.save('' @ [CHR 0x27] @ ''x'' @ [CHR 0x27] @ '')'',
      ''y.save('' @ [CHR 0x27] @ ''y'' @ [CHR 0x27] @ '')'',
      ''z.save('' @ [CHR 0x27] @ ''z'' @ [CHR 0x27] @ '')'', '''']"
  using collective_lines_follow_recorded_outputs [where variables =
        "[(''a'', ''x''), (''b'', ''y''), (''c'', ''z'')]"
      and a = "\<lparr>plugin_id = ''p'', action_id = ''act'',
        signature = \<lparr>inputs = [], parameters = [], outputs = [''a'', ''b'', ''c'', ''d'']\<rparr>\<rparr>"
      and input_opts = "[]" and INDENT = "''    ''"
      and tin = "\<lambda>k v. ''    '' @ k @ ''='' @ v @ '',''"
      and s = "(init_driver False 2 :: unit driver)\<lparr>recorder := [''# earlier'']\<rparr>"]
  by (simp add: asdict_def extraction_line_def save_line_def call_open_def
      init_driver_def reset_state_def)

section \<open>Footer and imports\<close>

lemma pair_up_concat: "concat (pair_up xs) = xs"
  by (induction xs rule: pair_up.induct) simp_all

lemma pair_up_lengths:
  "map length (pair_up xs) = replicate (length xs div 2) 2 @ replicate (length xs mod 2) 1"
  by (induction xs rule: pair_up.induct) simp_all

lemma pair_up_length: "length (pair_up xs) = (length xs + 1) div 2"
  by (induction xs rule: pair_up.induct) simp_all

lemma footer_loop_eq:
  "footer_loop uuids idx pairs = pairs @ map footer_line (pair_up (drop idx uuids))"
proof (induction uuids idx pairs rule: footer_loop.induct)
  case (1 uuids idx pairs)
  show ?case
  proof (cases "idx < length uuids")
    case False
    then show ?thesis by (subst footer_loop.simps) simp
  next
    case True
    then have hd_drop: "drop idx uuids = uuids ! idx # drop (Suc idx) uuids"
      by (simp add: Cons_nth_drop_Suc)
    show ?thesis
    proof (cases "idx = length uuids - 1")
      case last: True
      have unfold: "footer_loop uuids idx pairs =
          footer_loop uuids (idx + 2) (pairs @ [''# '' @ uuids ! idx])"
        by (subst footer_loop.simps) (use True last in \<open>simp add: Let_def\<close>)
      have "drop (Suc idx) uuids = []" using last True by simp
      then have d: "drop idx uuids = [uuids ! idx]" and d2: "drop (idx + 2) uuids = []"
        using hd_drop by simp_all
      show ?thesis
        unfolding unfold 1(1)[OF refl True last] d d2
        by (simp add: footer_line_def)
    next
      case notlast: False
      have lt: "Suc idx < length uuids" using True notlast by arith
      have unfold: "footer_loop uuids idx pairs =
          footer_loop uuids (idx + 2)
            (pairs @ [''# '' @ uuids ! idx @ '' '' @ [CHR 0x09] @ '' '' @ uuids ! (idx + 1)])"
        by (subst footer_loop.simps) (use True notlast in \<open>simp add: Let_def\<close>)
      have d: "drop idx uuids = uuids ! idx # uuids ! (idx + 1) # drop (idx + 2) uuids"
        using lt hd_drop by (simp add: Cons_nth_drop_Suc)
      show ?thesis
        unfolding unfold 1(2)[OF refl True notlast] d
        by (simp add: footer_line_def)
    qed
  qed
qed

lemma build_footer_eq:
  "build_footer dag boundary =
     [boundary, footer_note] @
     map footer_line (pair_up (sorted_list_of_fset (parsed_artifact_uuids dag))) @
     [boundary, '''']"
  by (simp add: build_footer_def footer_loop_eq)

lemma length_sorted_list_of_fset: "length (sorted_list_of_fset A) = fcard A"
  by (simp add: sorted_list_of_fset.rep_eq fcard.rep_eq)

lemma sorted_sorted_list_of_fset: "sorted (sorted_list_of_fset A)"
  by (simp add: sorted_list_of_fset.rep_eq)

lemma distinct_sorted_list_of_fset: "distinct (sorted_list_of_fset A)"
  by (simp add: sorted_list_of_fset.rep_eq)

text \<open>
  C7: between the boundary line with the fixed note and the closing boundary
  line, \<open>build_footer\<close> puts the identifier lines: the sorted identifiers in
  groups of two, a last one alone when their number \<open>N\<close> is odd, which makes
  \<open>(N + 1) div 2\<close> lines; read line after line the identifiers are the
  ascending list of the set.
\<close>

theorem build_footer_identifier_lines:
  "build_footer dag boundary =
     [boundary, footer_note] @
     map footer_line (pair_up (sorted_list_of_fset (parsed_artifact_uuids dag))) @
     [boundary, '''']
   \<and> length (pair_up (sorted_list_of_fset (parsed_artifact_uuids dag))) =
     (fcard (parsed_artifact_uuids dag) + 1) div 2
   \<and> map length (pair_up (sorted_list_of_fset (parsed_artifact_uuids dag))) =
     replicate (fcard (parsed_artifact_uuids dag) div 2) 2 @
     replicate (fcard (parsed_artifact_uuids dag) mod 2) 1
   \<and> concat (pair_up (sorted_list_of_fset (parsed_artifact_uuids dag))) =
     sorted_list_of_fset (parsed_artifact_uuids dag)
   \<and> sorted (sorted_list_of_fset (parsed_artifact_uuids dag))
   \<and> distinct (sorted_list_of_fset (parsed_artifact_uuids dag))
   \<and> set (sorted_list_of_fset (parsed_artifact_uuids dag)) = fset (parsed_artifact_uuids dag)"
  by (simp only: build_footer_eq pair_up_length pair_up_lengths pair_up_concat
      length_sorted_list_of_fset sorted_sorted_list_of_fset distinct_sorted_list_of_fset
      sorted_list_of_fset_simps simp_thms)

lemma record_imports_local:
  "local_imports (record_imports recs s) =
     local_imports s |\<union>| import_statement |`| fset_of_list recs"
  by (induction recs arbitrary: s) (auto simp: update_imports_def)

lemma record_imports_frame:
  "header (record_imports recs s) = header s
   \<and> recorder (record_imports recs s) = recorder s
   \<and> footer (record_imports recs s) = footer s"
  by (induction recs arbitrary: s) (simp_all add: update_imports_def)

lemma render_text:
  "fst (render flush s) =
     join_str ''\<newline>''
       ((if header s \<noteq> [] then header s @ [''''] else []) @
        import_block (sorted_list_of_fset (local_imports s)) @ recorder s @
        (if footer s \<noteq> [] then '''' # footer s else []))"
  by (simp add: render_def Let_def import_block_def)

text \<open>
  C8: after any sequence of import records has been recorded in a driver, whatever
  its header, body and footer, the rendered text is the header, the import block,
  the body and the footer, and the import block is the sorted list of the local
  imports: ascending, without repetition, and holding exactly the statements the
  driver held before together with the statements of the records, however often
  and in whatever order they came.
\<close>

theorem rendered_imports_sorted_distinct:
  "fst (render flush (record_imports recs s)) =
     join_str ''\<newline>''
       ((if header s \<noteq> [] then header s @ [''''] else []) @
        import_block (sorted_list_of_fset (local_imports (record_imports recs s))) @
        recorder s @
        (if footer s \<noteq> [] then '''' # footer s else []))
   \<and> sorted (sorted_list_of_fset (local_imports (record_imports recs s)))
   \<and> distinct (sorted_list_of_fset (local_imports (record_imports recs s)))
   \<and> set (sorted_list_of_fset (local_imports (record_imports recs s))) =
     fset (local_imports s) \<union> import_statement ` set recs
   \<and> sorted_list_of_fset (local_imports (record_imports recs s)) =
     sorted_list_of_set (fset (local_imports s) \<union> import_statement ` set recs)
   \<and> sorted_list_of_fset (local_imports (record_imports recs (reset_state True s))) =
     sorted_list_of_set (import_statement ` set recs)"
proof -
  let ?s = "record_imports recs s"
  have rendered: "fst (render flush ?s) =
      join_str ''\<newline>''
       ((if header s \<noteq> [] then header s @ [''''] else []) @
        import_block (sorted_list_of_fset (local_imports ?s)) @
        recorder s @
        (if footer s \<noteq> [] then '''' # footer s else []))"
    by (simp add: render_text record_imports_frame)
  have st: "fset (local_imports ?s) = fset (local_imports s) \<union> import_statement ` set recs"
    by (simp add: record_imports_local fset_of_list.rep_eq)
  have sl: "sorted_list_of_fset (local_imports ?s) =
      sorted_list_of_set (fset (local_imports s) \<union> import_statement ` set recs)"
    by (simp add: sorted_list_of_fset.rep_eq st)
  have st0: "fset (local_imports (record_imports recs (reset_state True s))) =
      import_statement ` set recs"
    by (simp add: record_imports_local fset_of_list.rep_eq reset_state_def)
  have sl0: "sorted_list_of_fset (local_imports (record_imports recs (reset_state True s))) =
      sorted_list_of_set (import_statement ` set recs)"
    by (simp add: sorted_list_of_fset.rep_eq st0)
  have sd: "sorted (sorted_list_of_fset (local_imports ?s))"
    "distinct (sorted_list_of_fset (local_imports ?s))"
    by (rule sorted_sorted_list_of_fset, rule distinct_sorted_list_of_fset)
  have se: "set (sorted_list_of_fset (local_imports ?s)) =
      fset (local_imports s) \<union> import_statement ` set recs"
    using st by simp
  from rendered sd se sl sl0 show ?thesis
    by (intro conjI)
qed

section \<open>Wrapped comments\<close>


























text \<open>
  A hyphenated word is two chunks for the splitter, and the line may end after
  the hyphen.
\<close>

lemma comment_breaks_after_hyphen:
  "comment_lines (replicate 73 CHR ''x'' @ '' ab-cd'') =
     [''# '' @ replicate 73 CHR ''x'' @ '' ab-'', ''# cd'', '''']"
  by code_simp

end
